theory Spec2Isabelle
  imports Main "HOL-Library.AList"
begin

section \<open>Document Query Assistant: the document index lifecycle of \<^verbatim>\<open>app.py\<close>\<close>

text \<open>
  The application keeps two stores side by side: the document registry, a dictionary
  from file name to a dictionary of metadata kept in the session state and written to
  \<^verbatim>\<open>documents_meta.json\<close>, and the vector index of the retrieval library. The theory
  embeds the methods of \<^verbatim>\<open>DocumentQueryApp\<close> that change them: the upload block of
  \<^verbatim>\<open>render_document_management\<close>, \<^verbatim>\<open>remove_document\<close>, \<^verbatim>\<open>remove_all_documents\<close>,
  \<^verbatim>\<open>render_question_section\<close>, and the two registry file methods.

  Python dictionaries keep insertion order and assigning to an existing key keeps the
  key's position, which is what \<^const>\<open>AList.update\<close> does on an association list;
  \<^verbatim>\<open>del d[k]\<close> on a present key is \<^const>\<open>AList.delete\<close>. Every exception the
  source can meet is a value: \<open>Inl e\<close> carries the text of the exception \<open>e\<close>.
\<close>

subsection \<open>Data\<close>

type_synonym exn = string

text \<open>A JSON scalar, as the values of one registry record are.\<close>

datatype jvalue = JStr string | JInt int

type_synonym doc_info = "(string \<times> jvalue) list"

type_synonym registry = "(string \<times> doc_info) list"

text \<open>An uploaded file of \<^verbatim>\<open>st.file_uploader\<close>: its name, its MIME type and its bytes.\<close>

record uploaded_file =
  file_name :: string
  file_type :: string
  getvalue :: string

text \<open>\<^verbatim>\<open>Document(text=..., metadata=...)\<close> of the retrieval library.\<close>

record document =
  doc_text :: string
  metadata :: "(string \<times> string) list"

type_synonym index = "document list"

record response =
  response_text :: string
  source_nodes :: "string list"

record query_entry =
  question :: string
  response :: string
  timestamp :: string

text \<open>\<^verbatim>\<open>st.session_state\<close> once \<^verbatim>\<open>_initialize_session_state\<close> has run.\<close>

record session_state =
  api_key :: "string option"
  documents_registry :: registry
  query_history :: "query_entry list"
  selected_model :: string

text \<open>What a method shows to the user, in the order of the calls.\<close>

datatype message =
    Warning string
  | Error string
  | Success string
  | Write string
  | Markdown string

text \<open>
  The world outside the program, read once per user action: the digest function, the
  two text extractors, the clock, and whether the calls that reach the network or the
  disk raise (\<open>None\<close>: the call returns).
\<close>

record env =
  md5_hexdigest :: "string \<Rightarrow> string"
  pdf_reader_text :: "string \<Rightarrow> exn + string"
  decode_utf8 :: "string \<Rightarrow> exn + string"
  strftime_now :: string
  embed_error :: "string \<Rightarrow> exn option"
  persist_error :: "exn option"
  registry_write_error :: "exn option"
  history_write_error :: "exn option"
  query_engine :: "index \<Rightarrow> string \<Rightarrow> exn + response"

text \<open>The result of a method that works on the registry and the index.\<close>

record outcome =
  session :: session_state
  index_of :: index
  shown :: "message list"
  uncaught :: "exn option"

text \<open>The result of the question section; \<open>queried\<close> lists the prompts sent to the engine.\<close>

record q_outcome =
  q_session :: session_state
  q_shown :: "message list"
  queried :: "string list"
  q_uncaught :: "exn option"

subsection \<open>The index store\<close>

text \<open>
  The index store is the retrieval library (\<^verbatim>\<open>VectorStoreIndex\<close>), which is not part
  of the repository. Its three operations follow the contract of the specification
  (section 4.3): the index holds documents as pairs of text and metadata. The two
  constructors embed the text through the network; when that call raises they raise,
  and the index they were given is as it was.
\<close>

text \<open>
  Modelled from the spec: \<^verbatim>\<open>index.insert(doc)\<close> of the retrieval library, absent from
  the sources; it "adds one logical document".
\<close>

definition index_insert :: "env \<Rightarrow> index \<Rightarrow> document \<Rightarrow> exn + index" where
  "index_insert E index doc =
     (case embed_error E (doc_text doc) of
        Some e \<Rightarrow> Inl e
      | None \<Rightarrow> Inr (index @ [doc]))"

text \<open>
  Modelled from the spec: \<^verbatim>\<open>VectorStoreIndex.from_documents(docs)\<close> of the retrieval
  library, absent from the sources; it "constructs a fresh index containing exactly
  the given documents".
\<close>

definition from_documents :: "env \<Rightarrow> document list \<Rightarrow> exn + index" where
  "from_documents E docs =
     (case List.map_filter (\<lambda>d. embed_error E (doc_text d)) docs of
        e # _ \<Rightarrow> Inl e
      | [] \<Rightarrow> Inr docs)"

text \<open>
  Modelled from the spec: \<^verbatim>\<open>index.docstore.docs.values()\<close> of the retrieval library,
  absent from the sources; the "read-back of current contents".
\<close>

definition docstore_docs :: "index \<Rightarrow> document list" where
  "docstore_docs index = index"

text \<open>\<^verbatim>\<open>doc.metadata.get('filename')\<close>\<close>

definition metadata_filename :: "document \<Rightarrow> string option" where
  "metadata_filename d = map_of (metadata d) ''filename''"

text \<open>The file names that tag an indexed document.\<close>

definition tags :: "index \<Rightarrow> string set" where
  "tags index = {f. \<exists>d \<in> set index. metadata_filename d = Some f}"

subsection \<open>Saving the registry, as the lifecycle methods see it\<close>

text \<open>
  \<^verbatim>\<open>_save_document_registry\<close> catches every exception of the write and shows it;
  its caller goes on. The file itself is modelled in the section on the registry file.
\<close>

definition save_document_registry :: "env \<Rightarrow> message list" where
  "save_document_registry E =
     (case registry_write_error E of
        None \<Rightarrow> []
      | Some e \<Rightarrow> [Error (''Error saving document registry: '' @ e)])"

definition save_query_history :: "env \<Rightarrow> message list" where
  "save_query_history E =
     (case history_write_error E of
        None \<Rightarrow> []
      | Some e \<Rightarrow> [Error (''Error saving query history: '' @ e)])"

subsection \<open>Uploading documents\<close>

text \<open>
  \<^verbatim>\<open>any(doc_info.get('hash') == file_hash for doc_info in registry.values())\<close>
\<close>

definition is_duplicate :: "registry \<Rightarrow> string \<Rightarrow> bool" where
  "is_duplicate reg file_hash =
     list_ex (\<lambda>doc_info. map_of doc_info ''hash'' = Some (JStr file_hash)) (map snd reg)"

text \<open>
  The first loop of the upload block: every file of the batch is hashed and checked
  against the registry, which the loop does not change. It returns
  \<^verbatim>\<open>duplicate_files\<close> and \<^verbatim>\<open>new_files_to_process\<close>.
\<close>

fun check_duplicates ::
  "env \<Rightarrow> registry \<Rightarrow> uploaded_file list \<Rightarrow>
     string list \<times> (uploaded_file \<times> string \<times> string) list" where
  "check_duplicates E reg [] = ([], [])"
| "check_duplicates E reg (u # us) =
     (let file_content = getvalue u;
          file_hash = md5_hexdigest E file_content;
          (duplicate_files, new_files) = check_duplicates E reg us
      in if is_duplicate reg file_hash
         then (file_name u # duplicate_files, new_files)
         else (duplicate_files, (u, file_content, file_hash) # new_files))"

text \<open>\<^verbatim>\<open>_extract_pdf_text\<close>: the text, or \<^verbatim>\<open>None\<close> and an error shown.\<close>

definition extract_pdf_text :: "env \<Rightarrow> string \<Rightarrow> message list \<times> string option" where
  "extract_pdf_text E pdf =
     (case pdf_reader_text E pdf of
        Inl e \<Rightarrow> ([Error (''Error extracting PDF text: '' @ e)], None)
      | Inr t \<Rightarrow> ([], Some t))"

text \<open>
  The body of \<^verbatim>\<open>if text:\<close> and its guard: an absent or empty text changes nothing;
  otherwise the document is inserted and, if that returned, the registry entry of the
  file name is assigned.
\<close>

definition index_document ::
  "env \<Rightarrow> registry \<times> index \<times> message list \<Rightarrow> uploaded_file \<Rightarrow> string \<Rightarrow> string \<Rightarrow>
     string option \<Rightarrow> registry \<times> index \<times> message list" where
  "index_document E s u file_content file_hash text_opt =
     (case s of (reg, index, msgs) \<Rightarrow>
        (case text_opt of
           None \<Rightarrow> (reg, index, msgs)
         | Some t \<Rightarrow>
             if t = [] then (reg, index, msgs)
             else
               (case index_insert E index
                       \<lparr>doc_text = t, metadata = [(''filename'', file_name u)]\<rparr> of
                  Inl e \<Rightarrow>
                    (reg, index,
                     msgs @ [Error (''Error processing '' @ file_name u @ '': '' @ e)])
                | Inr index' \<Rightarrow>
                    (AList.update (file_name u)
                       [(''type'', JStr (file_type u)),
                        (''size'', JInt (int (length file_content))),
                        (''date_added'', JStr (strftime_now E)),
                        (''hash'', JStr file_hash)] reg,
                     index', msgs))))"

text \<open>One round of the second loop of the upload block.\<close>

definition process_file ::
  "env \<Rightarrow> registry \<times> index \<times> message list \<Rightarrow> uploaded_file \<times> string \<times> string \<Rightarrow>
     registry \<times> index \<times> message list" where
  "process_file E s item =
     (case s of (reg, index, msgs) \<Rightarrow>
      case item of (u, file_content, file_hash) \<Rightarrow>
        if file_type u = ''application/pdf'' then
          (case extract_pdf_text E file_content of
             (ms, text_opt) \<Rightarrow>
               index_document E (reg, index, msgs @ ms) u file_content file_hash text_opt)
        else if file_type u = ''text/plain'' then
          (case decode_utf8 E file_content of
             Inl e \<Rightarrow>
               (reg, index,
                msgs @ [Error (''Error processing '' @ file_name u @ '': '' @ e)])
           | Inr t \<Rightarrow> index_document E (reg, index, msgs) u file_content file_hash (Some t))
        else (reg, index, msgs @ [Warning (''Unsupported file type: '' @ file_type u)]))"

text \<open>
  The upload block of \<^verbatim>\<open>render_document_management\<close>, entered when files are
  selected and the upload button is pressed. The last call, persisting the index, is
  outside every \<^verbatim>\<open>try\<close>: its exception leaves the method.
\<close>

definition upload_documents ::
  "env \<Rightarrow> session_state \<Rightarrow> index \<Rightarrow> uploaded_file list \<Rightarrow> outcome" where
  "upload_documents E st index uploaded_files =
     (if uploaded_files = [] then
        \<lparr>session = st, index_of = index, shown = [], uncaught = None\<rparr>
      else
        (case check_duplicates E (documents_registry st) uploaded_files of
           (duplicate_files, new_files) \<Rightarrow>
             (case foldl (process_file E)
                     (documents_registry st, index,
                      if duplicate_files = [] then []
                      else Warning ''Duplicate files detected:''
                           # map (\<lambda>f. Write (''- '' @ f)) duplicate_files)
                     new_files of
                (reg, index', msgs) \<Rightarrow>
                  (case persist_error E of
                     Some e \<Rightarrow>
                       \<lparr>session = st\<lparr>documents_registry := reg\<rparr>, index_of = index',
                        shown = msgs @ save_document_registry E, uncaught = Some e\<rparr>
                   | None \<Rightarrow>
                       \<lparr>session = st\<lparr>documents_registry := reg\<rparr>, index_of = index',
                        shown = msgs @ save_document_registry E
                                @ [Success ''Index updated successfully!''],
                        uncaught = None\<rparr>))))"

subsection \<open>Removing documents\<close>

text \<open>
  \<^verbatim>\<open>remove_document\<close>: the registry entry is deleted and saved when the name is
  registered; the index is then rebuilt from the documents whose file name differs.
  An exception of the rebuild or of persisting is caught: the method shows it and
  returns the index it was given.
\<close>

definition remove_document :: "env \<Rightarrow> session_state \<Rightarrow> index \<Rightarrow> string \<Rightarrow> outcome" where
  "remove_document E st index filename =
     (case (if filename \<in> set (map fst (documents_registry st))
            then (AList.delete filename (documents_registry st), save_document_registry E)
            else (documents_registry st, [])) of
        (reg, msgs) \<Rightarrow>
          (case from_documents E
                  (map (\<lambda>doc. \<lparr>doc_text = doc_text doc, metadata = metadata doc\<rparr>)
                     (filter (\<lambda>doc. metadata_filename doc \<noteq> Some filename)
                        (docstore_docs index))) of
             Inl e \<Rightarrow>
               \<lparr>session = st\<lparr>documents_registry := reg\<rparr>, index_of = index,
                shown = msgs @ [Error (''Error removing document: '' @ e)],
                uncaught = None\<rparr>
           | Inr new_index \<Rightarrow>
               (case persist_error E of
                  Some e \<Rightarrow>
                    \<lparr>session = st\<lparr>documents_registry := reg\<rparr>, index_of = index,
                     shown = msgs @ [Error (''Error removing document: '' @ e)],
                     uncaught = None\<rparr>
                | None \<Rightarrow>
                    \<lparr>session = st\<lparr>documents_registry := reg\<rparr>, index_of = new_index,
                     shown = msgs @ [Success (''Document '' @ [CHR 0x27] @ filename
                                              @ [CHR 0x27] @ '' removed successfully.'')],
                     uncaught = None\<rparr>)))"

definition remove_all_documents :: "env \<Rightarrow> session_state \<Rightarrow> index \<Rightarrow> outcome" where
  "remove_all_documents E st index =
     (case from_documents E [] of
        Inl e \<Rightarrow>
          \<lparr>session = st\<lparr>documents_registry := []\<rparr>, index_of = index,
           shown = save_document_registry E
                   @ [Error (''Error removing all documents: '' @ e)],
           uncaught = None\<rparr>
      | Inr new_index \<Rightarrow>
          (case persist_error E of
             Some e \<Rightarrow>
               \<lparr>session = st\<lparr>documents_registry := []\<rparr>, index_of = index,
                shown = save_document_registry E
                        @ [Error (''Error removing all documents: '' @ e)],
                uncaught = None\<rparr>
           | None \<Rightarrow>
               \<lparr>session = st\<lparr>documents_registry := []\<rparr>, index_of = new_index,
                shown = save_document_registry E
                        @ [Success ''All documents have been removed.''],
                uncaught = None\<rparr>))"

subsection \<open>Asking a question\<close>

text \<open>
  \<^verbatim>\<open>render_question_section\<close>. The prompt is \<^verbatim>\<open>None\<close> until the user submits one,
  and the walrus test also skips an empty prompt. The engine call is outside every
  \<^verbatim>\<open>try\<close>. \<^verbatim>\<open>history[-50:]\<close> on a longer list is its last fifty entries.
\<close>

definition limit_history :: "query_entry list \<Rightarrow> query_entry list" where
  "limit_history h = (if length h > 50 then drop (length h - 50) h else h)"

definition render_question_section ::
  "env \<Rightarrow> session_state \<Rightarrow> index \<Rightarrow> string option \<Rightarrow> q_outcome" where
  "render_question_section E st index prompt_opt =
     (if documents_registry st = [] then
        \<lparr>q_session = st,
         q_shown = [Warning ''Please upload a document to start asking questions.''],
         queried = [], q_uncaught = None\<rparr>
      else
        (case prompt_opt of
           None \<Rightarrow> \<lparr>q_session = st, q_shown = [], queried = [], q_uncaught = None\<rparr>
         | Some prompt \<Rightarrow>
             if prompt = [] then
               \<lparr>q_session = st, q_shown = [], queried = [], q_uncaught = None\<rparr>
             else
               (case query_engine E index prompt of
                  Inl e \<Rightarrow>
                    \<lparr>q_session = st, q_shown = [], queried = [prompt],
                     q_uncaught = Some e\<rparr>
                | Inr r \<Rightarrow>
                    \<lparr>q_session =
                       st\<lparr>query_history :=
                            limit_history
                              (query_history st
                               @ [\<lparr>question = prompt, response = response_text r,
                                   timestamp = strftime_now E\<rparr>])\<rparr>,
                     q_shown =
                       save_query_history E
                       @ [Markdown ''**Your Question:**'', Write prompt,
                          Markdown ''**Answer:**'', Markdown (response_text r)]
                       @ (if source_nodes r = [] then []
                          else Markdown ''**Sources:**''
                               # map (\<lambda>t. Write (''- '' @ take 200 t @ ''...''))
                                   (source_nodes r)),
                     queried = [prompt], q_uncaught = None\<rparr>)))"

subsection \<open>Operations and runs\<close>

text \<open>
  The three operations on the two stores. A method has completed when no exception
  left it and the last thing it showed is its success message; the methods that catch
  an exception show an error last instead.
\<close>

datatype operation = Insert "uploaded_file list" | Remove string | RemoveAll

definition perform :: "env \<Rightarrow> operation \<Rightarrow> session_state \<times> index \<Rightarrow> outcome" where
  "perform E op s =
     (case s of (st, index) \<Rightarrow>
        (case op of
           Insert uploaded_files \<Rightarrow> upload_documents E st index uploaded_files
         | Remove filename \<Rightarrow> remove_document E st index filename
         | RemoveAll \<Rightarrow> remove_all_documents E st index))"

definition completed :: "outcome \<Rightarrow> bool" where
  "completed out =
     (uncaught out = None \<and>
      (case rev (shown out) of Success _ # _ \<Rightarrow> True | _ \<Rightarrow> False))"



subsection \<open>The registry file\<close>







text \<open>
  \<^verbatim>\<open>_initialize_session_state\<close>: a fresh session has none of the four keys and gets
  the defaults; a session that has run before keeps what it holds.
\<close>

definition empty_session :: session_state where
  "empty_session =
     \<lparr>api_key = None, documents_registry = [], query_history = [],
      selected_model = ''gpt-4o-mini''\<rparr>"





subsection \<open>A world in which every external call returns\<close>

text \<open>
  Used to run the methods on concrete inputs. The digest is the content itself, a
  stand-in that, like MD5 on the inputs below, gives equal digests to equal contents
  and different digests to different ones; both extractors return the bytes as text.
\<close>

definition calm_env :: env where
  "calm_env =
     \<lparr>md5_hexdigest = (\<lambda>b. b),
      pdf_reader_text = Inr,
      decode_utf8 = Inr,
      strftime_now = ''2024-01-01 12:00:00'',
      embed_error = (\<lambda>t. None),
      persist_error = None,
      registry_write_error = None,
      history_write_error = None,
      query_engine = (\<lambda>index prompt.
         Inr \<lparr>response_text = ''42'', source_nodes = map doc_text index\<rparr>)\<rparr>"

text \<open>The same world with the network down: every embedding call raises.\<close>

definition offline_env :: env where
  "offline_env = calm_env\<lparr>embed_error := (\<lambda>t. Some ''Connection error.'')\<rparr>"



definition txt_file :: "string \<Rightarrow> string \<Rightarrow> uploaded_file" where
  "txt_file n content = \<lparr>file_name = n, file_type = ''text/plain'', getvalue = content\<rparr>"

text \<open>
  The stores after the text file \<^verbatim>\<open>a.txt\<close> with the content \<^verbatim>\<open>hello\<close> has been
  uploaded in that world.
\<close>

definition hello_info :: doc_info where
  "hello_info =
     [(''type'', JStr ''text/plain''), (''size'', JInt 5),
      (''date_added'', JStr ''2024-01-01 12:00:00''), (''hash'', JStr ''hello'')]"

definition hello_session :: session_state where
  "hello_session = empty_session\<lparr>documents_registry := [(''a.txt'', hello_info)]\<rparr>"

definition hello_index :: index where
  "hello_index = [\<lparr>doc_text = ''hello'', metadata = [(''filename'', ''a.txt'')]\<rparr>]"

section \<open>Properties\<close>

subsection \<open>Auxiliary facts about the upload loops\<close>

lemma check_duplicates_eq:
  "check_duplicates E reg us =
     (map file_name (filter (\<lambda>u. is_duplicate reg (md5_hexdigest E (getvalue u))) us),
      map (\<lambda>u. (u, getvalue u, md5_hexdigest E (getvalue u)))
        (filter (\<lambda>u. \<not> is_duplicate reg (md5_hexdigest E (getvalue u))) us))"
  by (induction us) (simp_all add: Let_def)

lemma is_duplicate_iff:
  "is_duplicate reg h \<longleftrightarrow>
     (\<exists>(f, doc_info) \<in> set reg. map_of doc_info ''hash'' = Some (JStr h))"
  by (force simp: is_duplicate_def list_ex_iff)

text \<open>The messages shown so far do not steer the loop: they are only extended.\<close>

lemma index_document_msgs:
  "index_document E (reg, index, msgs) u c h t =
     (case index_document E (reg, index, []) u c h t of
        (reg', index', ms) \<Rightarrow> (reg', index', msgs @ ms))"
  by (simp add: index_document_def split: option.splits sum.splits)

lemma process_file_msgs:
  "process_file E (reg, index, msgs) item =
     (case process_file E (reg, index, []) item of
        (reg', index', ms) \<Rightarrow> (reg', index', msgs @ ms))"
proof (cases item)
  case (fields u c h)
  obtain ms t where pdf: "extract_pdf_text E c = (ms, t)"
    by (cases "extract_pdf_text E c")
  obtain r1 i1 m1 where d1: "index_document E (reg, index, []) u c h t = (r1, i1, m1)"
    by (cases "index_document E (reg, index, []) u c h t")
  have a: "index_document E (reg, index, msgs @ ms) u c h t = (r1, i1, msgs @ ms @ m1)"
    using index_document_msgs [of E reg index "msgs @ ms" u c h t] d1 by simp
  have b: "index_document E (reg, index, ms) u c h t = (r1, i1, ms @ m1)"
    using index_document_msgs [of E reg index ms u c h t] d1 by simp
  have c: "index_document E (reg, index, msgs) u c h t' =
      (case index_document E (reg, index, []) u c h t' of
        (reg', index', ms) \<Rightarrow> (reg', index', msgs @ ms))" for t'
    by (rule index_document_msgs)
  show ?thesis
    unfolding fields process_file_def
    by (simp add: pdf a b c split: sum.splits)
qed

lemma foldl_process_file_msgs:
  "foldl (process_file E) (reg, index, msgs) items =
     (case foldl (process_file E) (reg, index, []) items of
        (reg', index', ms) \<Rightarrow> (reg', index', msgs @ ms))"
proof (induction items arbitrary: reg index msgs)
  case Nil
  show ?case by simp
next
  case (Cons item items)
  obtain r1 i1 m1 where p: "process_file E (reg, index, []) item = (r1, i1, m1)"
    by (cases "process_file E (reg, index, []) item")
  have q: "process_file E (reg, index, msgs) item = (r1, i1, msgs @ m1)"
    using process_file_msgs [of E reg index msgs item] p by simp
  obtain r2 i2 m2 where f: "foldl (process_file E) (r1, i1, []) items = (r2, i2, m2)"
    by (cases "foldl (process_file E) (r1, i1, []) items")
  show ?case
    using Cons.IH [of r1 i1 "msgs @ m1"] Cons.IH [of r1 i1 m1] by (simp add: p q f)
qed

subsection \<open>Auxiliary facts about the operations\<close>



lemma metadata_filename_new [simp]:
  "metadata_filename \<lparr>doc_text = t, metadata = [(''filename'', n)]\<rparr> = Some n"
  by (simp add: metadata_filename_def)







lemma rebuild_identity:
  "map (\<lambda>doc. \<lparr>doc_text = doc_text doc, metadata = metadata doc\<rparr>) docs = docs"
  by (induction docs) simp_all

lemma from_documents_Inr: "from_documents E docs = Inr new_index \<Longrightarrow> new_index = docs"
  by (simp add: from_documents_def split: list.splits)

lemma remove_document_completed:
  assumes "completed (remove_document E st index f)"
  shows "documents_registry (session (remove_document E st index f)) =
           AList.delete f (documents_registry st)"
    and "index_of (remove_document E st index f) =
           filter (\<lambda>d. metadata_filename d \<noteq> Some f) index"
  using assms
  by (auto simp: remove_document_def completed_def rebuild_identity docstore_docs_def
      dest: from_documents_Inr split: if_splits sum.splits option.splits)


lemma upload_documents_stores:
  assumes "uploaded_files \<noteq> []"
  shows "\<exists>msgs. foldl (process_file E) (documents_registry st, index, [])
            (snd (check_duplicates E (documents_registry st) uploaded_files)) =
          (documents_registry (session (upload_documents E st index uploaded_files)),
           index_of (upload_documents E st index uploaded_files), msgs)"
proof -
  obtain dups new where cd: "check_duplicates E (documents_registry st) uploaded_files = (dups, new)"
    by (cases "check_duplicates E (documents_registry st) uploaded_files")
  obtain r i m where f: "foldl (process_file E) (documents_registry st, index, []) new = (r, i, m)"
    by (cases "foldl (process_file E) (documents_registry st, index, []) new")
  have g: "foldl (process_file E) (documents_registry st, index, ms) new = (r, i, ms @ m)" for ms
    using foldl_process_file_msgs [of E "documents_registry st" index ms new] f by simp
  show ?thesis
    using assms by (simp add: upload_documents_def cd f g split: option.splits)
qed











lemma upload_documents_stores_eq:
  assumes "uploaded_files \<noteq> []"
  shows "documents_registry (session (upload_documents E st index uploaded_files)) =
           fst (foldl (process_file E) (documents_registry st, index, [])
                  (snd (check_duplicates E (documents_registry st) uploaded_files)))"
    and "index_of (upload_documents E st index uploaded_files) =
           fst (snd (foldl (process_file E) (documents_registry st, index, [])
                  (snd (check_duplicates E (documents_registry st) uploaded_files))))"
  using upload_documents_stores [OF assms, of E st index] by auto

lemma upload_documents_session_rest:
  "session (upload_documents E st index uploaded_files) =
     st\<lparr>documents_registry :=
          documents_registry (session (upload_documents E st index uploaded_files))\<rparr>"
  by (simp add: upload_documents_def split: prod.splits option.splits)

lemma upload_documents_duplicates_shown:
  assumes "uploaded_files \<noteq> []"
    and "n \<in> set (fst (check_duplicates E (documents_registry st) uploaded_files))"
  shows "Warning ''Duplicate files detected:'' \<in> set (shown (upload_documents E st index uploaded_files))"
    and "Write (''- '' @ n) \<in> set (shown (upload_documents E st index uploaded_files))"
proof -
  obtain dups new where cd: "check_duplicates E (documents_registry st) uploaded_files = (dups, new)"
    by (cases "check_duplicates E (documents_registry st) uploaded_files")
  obtain r i m where f: "foldl (process_file E) (documents_registry st, index, []) new = (r, i, m)"
    by (cases "foldl (process_file E) (documents_registry st, index, []) new")
  have g: "foldl (process_file E) (documents_registry st, index, ms) new = (r, i, ms @ m)" for ms
    using foldl_process_file_msgs [of E "documents_registry st" index ms new] f by simp
  have n: "n \<in> set dups" using assms(2) cd by simp
  then have ne: "dups \<noteq> []" by auto
  show "Warning ''Duplicate files detected:'' \<in> set (shown (upload_documents E st index uploaded_files))"
    using assms(1) ne by (simp add: upload_documents_def cd g split: option.splits)
  show "Write (''- '' @ n) \<in> set (shown (upload_documents E st index uploaded_files))"
    using assms(1) ne n by (simp add: upload_documents_def cd g split: option.splits)
qed








lemma is_duplicate_rename:
  "is_duplicate (map (\<lambda>p. (rename (fst p), snd p)) reg) h = is_duplicate reg h"
  by (simp add: is_duplicate_def comp_def)

lemma update_present_keys:
  "k \<in> set (map fst al) \<Longrightarrow> map fst (AList.update k v al) = map fst al"
  by (simp add: AList.update_keys)

subsection \<open>Auxiliary facts about the registry file\<close>






text \<open>Unfolding these definitions runs the methods on a concrete input.\<close>

lemmas eval_defs = upload_documents_def remove_document_def remove_all_documents_def
  perform_def completed_def process_file_def index_document_def index_insert_def
  from_documents_def docstore_docs_def metadata_filename_def is_duplicate_def
  extract_pdf_text_def save_document_registry_def save_query_history_def
  calm_env_def offline_env_def empty_session_def txt_file_def List.map_filter_def Let_def
  hello_info_def hello_session_def hello_index_def tags_def
  render_question_section_def limit_history_def

subsection \<open>A removal that fails\<close>

text \<open>
  \<^verbatim>\<open>remove_document\<close> deletes and saves the registry entry before it rebuilds the
  index. When the rebuild raises, the method reports the error and returns the old
  index: the registry has lost the entry while its documents are still indexed. This
  is why the correspondence of the two stores is stated for runs whose operations
  all complete.
\<close>

lemma remove_document_failure_example:
  "remove_document offline_env
     (empty_session\<lparr>documents_registry := [(''a.txt'', hello_info), (''b.txt'', hello_info)]\<rparr>)
     [\<lparr>doc_text = ''hello'', metadata = [(''filename'', ''a.txt'')]\<rparr>,
      \<lparr>doc_text = ''hello'', metadata = [(''filename'', ''b.txt'')]\<rparr>] ''a.txt'' =
   \<lparr>session = empty_session\<lparr>documents_registry := [(''b.txt'', hello_info)]\<rparr>,
    index_of =
      [\<lparr>doc_text = ''hello'', metadata = [(''filename'', ''a.txt'')]\<rparr>,
       \<lparr>doc_text = ''hello'', metadata = [(''filename'', ''b.txt'')]\<rparr>],
    shown = [Error ''Error removing document: Connection error.''],
    uncaught = None\<rparr>"
  by (simp add: eval_defs)

subsection \<open>The claims\<close>

text \<open>
  C9. Whatever the prompt, an empty registry makes the question section stop with the
  warning that no document is uploaded: no prompt reaches the query engine and the
  session, its history included, is as before.
\<close>

theorem C9_empty_registry_short_circuits:
  "documents_registry st = [] \<Longrightarrow>
   render_question_section E st index prompt_opt =
     \<lparr>q_session = st,
      q_shown = [Warning ''Please upload a document to start asking questions.''],
      queried = [], q_uncaught = None\<rparr>"
  by (simp add: render_question_section_def)

text \<open>
  C9, witness: a fresh session has an empty registry; the prompt \<open>hi\<close> is not sent.
\<close>

theorem C9_empty_registry_short_circuits_witness:
  "documents_registry empty_session = [] \<and>
   render_question_section calm_env empty_session [] (Some ''hi'') =
     \<lparr>q_session = empty_session,
      q_shown = [Warning ''Please upload a document to start asking questions.''],
      queried = [], q_uncaught = None\<rparr>"
proof -
  have h: "documents_registry empty_session = []"
    by (simp add: empty_session_def)
  from C9_empty_registry_short_circuits [OF h, of calm_env "[]" "Some ''hi''"] h
  show ?thesis by simp
qed




text \<open>
  C2. Let the digest of an uploaded file equal the hash of some registry record.
  Whatever the file is called and wherever it stands in the batch, the batch leaves
  the registry and the index exactly as the batch without that file does; uploaded
  alone, it leaves both as they were. The file is rejected as a duplicate: the
  duplicate warning is shown, and so is the line with its file name.
\<close>

theorem C2_duplicate_rejected:
  assumes "(f, doc_info) \<in> set (documents_registry st)"
    and "map_of doc_info ''hash'' = Some (JStr (md5_hexdigest E (getvalue u)))"
  shows "session (upload_documents E st index (before @ u # after)) =
           session (upload_documents E st index (before @ after)) \<and>
         index_of (upload_documents E st index (before @ u # after)) =
           index_of (upload_documents E st index (before @ after)) \<and>
         session (upload_documents E st index [u]) = st \<and>
         index_of (upload_documents E st index [u]) = index \<and>
         Warning ''Duplicate files detected:''
           \<in> set (shown (upload_documents E st index (before @ u # after))) \<and>
         Write (''- '' @ file_name u)
           \<in> set (shown (upload_documents E st index (before @ u # after)))"
proof -
  let ?reg = "documents_registry st"
  have dup: "is_duplicate ?reg (md5_hexdigest E (getvalue u))"
    unfolding is_duplicate_iff using assms by blast
  have new: "snd (check_duplicates E ?reg (xs @ u # ys)) = snd (check_duplicates E ?reg (xs @ ys))"
    for xs ys
    by (simp add: check_duplicates_eq dup)
  have reported: "file_name u \<in> set (fst (check_duplicates E ?reg (before @ u # after)))"
    by (simp add: check_duplicates_eq dup)
  have ne: "before @ u # after \<noteq> []" by simp
  have single_new: "snd (check_duplicates E ?reg [u]) = []"
    by (simp add: check_duplicates_eq dup)
  have single: "documents_registry (session (upload_documents E st index [u])) = ?reg"
      "index_of (upload_documents E st index [u]) = index"
    using upload_documents_stores_eq [of "[u]" E st index] single_new by simp_all
  have s1: "session (upload_documents E st index [u]) = st"
    using upload_documents_session_rest [of E st index "[u]"] single(1) by simp
  have stores: "documents_registry (session (upload_documents E st index (before @ u # after))) =
        documents_registry (session (upload_documents E st index (before @ after))) \<and>
      index_of (upload_documents E st index (before @ u # after)) =
        index_of (upload_documents E st index (before @ after))"
  proof (cases "before @ after = []")
    case True
    then have "before = []" "after = []" by simp_all
    then show ?thesis using single by (simp add: upload_documents_def)
  next
    case False
    show ?thesis
      using upload_documents_stores_eq [OF ne, of E st index]
        upload_documents_stores_eq [OF False, of E st index] new [of before after]
      by simp
  qed
  have s2: "session (upload_documents E st index (before @ u # after)) =
           session (upload_documents E st index (before @ after))"
    using upload_documents_session_rest [of E st index "before @ u # after"]
      upload_documents_session_rest [of E st index "before @ after"] stores
    by simp
  show ?thesis
    using s1 s2 stores single upload_documents_duplicates_shown [OF ne reported, of index]
    by simp
qed

text \<open>
  C2, witness: \<^verbatim>\<open>a.txt\<close> is registered with the content \<^verbatim>\<open>hello\<close>; the same bytes
  come again under the name \<^verbatim>\<open>b.txt\<close>.
\<close>

theorem C2_duplicate_rejected_witness:
  "(''a.txt'', hello_info) \<in> set (documents_registry hello_session) \<and>
   map_of hello_info ''hash'' =
     Some (JStr (md5_hexdigest calm_env (getvalue (txt_file ''b.txt'' ''hello'')))) \<and>
   session (upload_documents calm_env hello_session hello_index
              [txt_file ''b.txt'' ''hello'']) = hello_session \<and>
   index_of (upload_documents calm_env hello_session hello_index
              [txt_file ''b.txt'' ''hello'']) = hello_index \<and>
   Write ''- b.txt''
     \<in> set (shown (upload_documents calm_env hello_session hello_index
                     [txt_file ''b.txt'' ''hello'']))"
proof -
  have a: "(''a.txt'', hello_info) \<in> set (documents_registry hello_session)"
    by (simp add: hello_session_def)
  have b: "map_of hello_info ''hash'' =
     Some (JStr (md5_hexdigest calm_env (getvalue (txt_file ''b.txt'' ''hello''))))"
    by (simp add: hello_info_def calm_env_def txt_file_def)
  have n: "file_name (txt_file ''b.txt'' ''hello'') = ''b.txt''"
    by (simp add: txt_file_def)
  have e: "''- '' @ ''b.txt'' = ''- b.txt''"
    by simp
  note c = C2_duplicate_rejected [OF a b, of hello_index "[]" "[]", unfolded n append_Nil e]
  from a b c show ?thesis by blast
qed

text \<open>
  C3, the code at the failing input: two files with the same bytes in one batch on
  the empty stores. Both are checked against the registry before either is
  processed, so no duplicate is reported and both are indexed and registered.
\<close>

theorem C3_same_batch_duplicate_accepted:
  "upload_documents calm_env empty_session []
     [txt_file ''a.txt'' ''hello'', txt_file ''b.txt'' ''hello''] =
   \<lparr>session =
      empty_session\<lparr>documents_registry :=
        [(''a.txt'', hello_info), (''b.txt'', hello_info)]\<rparr>,
    index_of =
      [\<lparr>doc_text = ''hello'', metadata = [(''filename'', ''a.txt'')]\<rparr>,
       \<lparr>doc_text = ''hello'', metadata = [(''filename'', ''b.txt'')]\<rparr>],
    shown = [Success ''Index updated successfully!''],
    uncaught = None\<rparr>"
  by (simp add: eval_defs)




text \<open>
  C5. After a completed \<^verbatim>\<open>remove_document\<close> on a registered file name, the name is
  no longer in the registry, no document of the rebuilt index carries it, and every
  document of the old index that carries another name, or none, is in the rebuilt
  index as it was: the rebuilt index is the old one without the documents of that
  name, and the registry is the old one without that entry.
\<close>

theorem C5_remove_present:
  assumes "f \<in> set (map fst (documents_registry st))"
    and "completed (remove_document E st index f)"
  shows "f \<notin> set (map fst (documents_registry (session (remove_document E st index f)))) \<and>
         (\<forall>d \<in> set (index_of (remove_document E st index f)). metadata_filename d \<noteq> Some f) \<and>
         (\<forall>d \<in> set index. metadata_filename d \<noteq> Some f \<longrightarrow>
            d \<in> set (index_of (remove_document E st index f))) \<and>
         index_of (remove_document E st index f) =
           filter (\<lambda>d. metadata_filename d \<noteq> Some f) index \<and>
         documents_registry (session (remove_document E st index f)) =
           AList.delete f (documents_registry st)"
  using remove_document_completed [OF assms(2)] AList.delete_notin_dom [of f "documents_registry st"]
  by simp

text \<open>
  C5, witness: \<^verbatim>\<open>a.txt\<close> and \<^verbatim>\<open>b.txt\<close> are registered and indexed; \<^verbatim>\<open>a.txt\<close> is
  removed and \<^verbatim>\<open>b.txt\<close> stays in both stores.
\<close>

theorem C5_remove_present_witness:
  "''a.txt'' \<in> set (map fst [(''a.txt'', hello_info), (''b.txt'', hello_info)]) \<and>
   completed (remove_document calm_env
      (empty_session\<lparr>documents_registry := [(''a.txt'', hello_info), (''b.txt'', hello_info)]\<rparr>)
      [\<lparr>doc_text = ''hello'', metadata = [(''filename'', ''a.txt'')]\<rparr>,
       \<lparr>doc_text = ''hello'', metadata = [(''filename'', ''b.txt'')]\<rparr>] ''a.txt'') \<and>
   index_of (remove_document calm_env
      (empty_session\<lparr>documents_registry := [(''a.txt'', hello_info), (''b.txt'', hello_info)]\<rparr>)
      [\<lparr>doc_text = ''hello'', metadata = [(''filename'', ''a.txt'')]\<rparr>,
       \<lparr>doc_text = ''hello'', metadata = [(''filename'', ''b.txt'')]\<rparr>] ''a.txt'') =
     [\<lparr>doc_text = ''hello'', metadata = [(''filename'', ''b.txt'')]\<rparr>] \<and>
   documents_registry (session (remove_document calm_env
      (empty_session\<lparr>documents_registry := [(''a.txt'', hello_info), (''b.txt'', hello_info)]\<rparr>)
      [\<lparr>doc_text = ''hello'', metadata = [(''filename'', ''a.txt'')]\<rparr>,
       \<lparr>doc_text = ''hello'', metadata = [(''filename'', ''b.txt'')]\<rparr>] ''a.txt'')) =
     [(''b.txt'', hello_info)]"
proof -
  have a: "''a.txt'' \<in> set (map fst (documents_registry
      (empty_session\<lparr>documents_registry := [(''a.txt'', hello_info), (''b.txt'', hello_info)]\<rparr>)))"
    by simp
  have c: "completed (remove_document calm_env
      (empty_session\<lparr>documents_registry := [(''a.txt'', hello_info), (''b.txt'', hello_info)]\<rparr>)
      [\<lparr>doc_text = ''hello'', metadata = [(''filename'', ''a.txt'')]\<rparr>,
       \<lparr>doc_text = ''hello'', metadata = [(''filename'', ''b.txt'')]\<rparr>] ''a.txt'')"
    by (simp add: eval_defs)
  from C5_remove_present [OF a c] a c show ?thesis
    by (simp add: metadata_filename_def)
qed

text \<open>
  C8. The question section never makes the history longer than fifty entries or, if
  it was longer already, than it was. When a question is answered the history has at
  most fifty entries afterwards; a history of exactly fifty loses its first, oldest
  entry, keeps the others in order, and ends with the new entry; a shorter history is
  extended by the new entry.
\<close>

theorem C8_history_capped:
  "length (query_history (q_session (render_question_section E st index prompt_opt)))
     \<le> max 50 (length (query_history st)) \<and>
   (documents_registry st \<noteq> [] \<and> prompt \<noteq> [] \<and> query_engine E index prompt = Inr r \<longrightarrow>
      length (query_history (q_session (render_question_section E st index (Some prompt))))
        \<le> 50 \<and>
      (length (query_history st) = 50 \<longrightarrow>
         query_history (q_session (render_question_section E st index (Some prompt))) =
           tl (query_history st)
           @ [\<lparr>question = prompt, response = response_text r, timestamp = strftime_now E\<rparr>]) \<and>
      (length (query_history st) < 50 \<longrightarrow>
         query_history (q_session (render_question_section E st index (Some prompt))) =
           query_history st
           @ [\<lparr>question = prompt, response = response_text r, timestamp = strftime_now E\<rparr>]))"
proof -
  have a: "length (query_history (q_session (render_question_section E st index prompt_opt)))
     \<le> max 50 (length (query_history st))"
    by (simp add: render_question_section_def limit_history_def
        split: option.splits sum.splits)
  have b: "drop (Suc 0) h = tl h" for h :: "query_entry list"
    by (simp add: drop_Suc)
  have c: "length (query_history (q_session (render_question_section E st index (Some prompt))))
        \<le> 50 \<and>
      (length (query_history st) = 50 \<longrightarrow>
         query_history (q_session (render_question_section E st index (Some prompt))) =
           tl (query_history st)
           @ [\<lparr>question = prompt, response = response_text r, timestamp = strftime_now E\<rparr>]) \<and>
      (length (query_history st) < 50 \<longrightarrow>
         query_history (q_session (render_question_section E st index (Some prompt))) =
           query_history st
           @ [\<lparr>question = prompt, response = response_text r, timestamp = strftime_now E\<rparr>])"
    if "documents_registry st \<noteq> []" "prompt \<noteq> []" "query_engine E index prompt = Inr r"
    using that
    by (cases "query_history st") (auto simp: render_question_section_def limit_history_def b)
  from a c show ?thesis by blast
qed

text \<open>
  C8, witness: a history of fifty equal entries and one answered question.
\<close>

theorem C8_history_capped_witness:
  "documents_registry hello_session \<noteq> [] \<and> ''why'' \<noteq> [] \<and>
   query_engine calm_env hello_index ''why'' =
     Inr \<lparr>response_text = ''42'', source_nodes = [''hello'']\<rparr> \<and>
   length (replicate 50 \<lparr>question = ''q'', response = ''a'', timestamp = ''t''\<rparr>) = 50 \<and>
   query_history (q_session (render_question_section calm_env
      (hello_session\<lparr>query_history :=
         replicate 50 \<lparr>question = ''q'', response = ''a'', timestamp = ''t''\<rparr>\<rparr>)
      hello_index (Some ''why''))) =
     replicate 49 \<lparr>question = ''q'', response = ''a'', timestamp = ''t''\<rparr>
     @ [\<lparr>question = ''why'', response = ''42'', timestamp = ''2024-01-01 12:00:00''\<rparr>]"
proof -
  let ?st = "hello_session\<lparr>query_history :=
         replicate 50 \<lparr>question = ''q'', response = ''a'', timestamp = ''t''\<rparr>\<rparr>"
  have a: "documents_registry ?st \<noteq> []" "documents_registry hello_session \<noteq> []"
    by (simp_all add: hello_session_def)
  have b: "query_engine calm_env hello_index ''why'' =
     Inr \<lparr>response_text = ''42'', source_nodes = [''hello'']\<rparr>"
    by (simp add: calm_env_def hello_index_def)
  have l: "length (query_history ?st) = 50"
    by simp
  have t: "tl (query_history ?st) = replicate 49 \<lparr>question = ''q'', response = ''a'', timestamp = ''t''\<rparr>"
    by (simp add: tl_replicate)
  have n: "strftime_now calm_env = ''2024-01-01 12:00:00''"
    by (simp add: calm_env_def)
  from C8_history_capped [of calm_env ?st hello_index None "''why''"
      "\<lparr>response_text = ''42'', source_nodes = [''hello'']\<rparr>"] a b l t n
  show ?thesis by simp
qed

text \<open>
  C10. The duplicate check reads only the hashes of the registry records: renaming
  the registered files in any way does not change its answer. When the digest of an
  uploaded file equals no recorded hash while its name is already registered, and
  its text is extracted and embedded and the index persisted, the upload is
  accepted: the document is added behind the documents already indexed, which all
  stay, those tagged with the same name included; the registry keeps its file names
  in place, and the entry of that name now holds the metadata of the new upload. No
  warning is shown, only the success message after what the save may report.
\<close>

theorem C10_dedup_by_hash_only:
  "is_duplicate (map (\<lambda>p. (rename (fst p), snd p)) reg) h = is_duplicate reg h \<and>
   ((\<forall>(f, doc_info) \<in> set (documents_registry st).
        map_of doc_info ''hash'' \<noteq> Some (JStr (md5_hexdigest E (getvalue u)))) \<and>
    file_name u \<in> set (map fst (documents_registry st)) \<and>
    (file_type u = ''text/plain'' \<and> decode_utf8 E (getvalue u) = Inr t \<or>
     file_type u = ''application/pdf'' \<and> pdf_reader_text E (getvalue u) = Inr t) \<and>
    t \<noteq> [] \<and> embed_error E t = None \<and> persist_error E = None \<longrightarrow>
    upload_documents E st index [u] =
      \<lparr>session =
         st\<lparr>documents_registry :=
              AList.update (file_name u)
                [(''type'', JStr (file_type u)),
                 (''size'', JInt (int (length (getvalue u)))),
                 (''date_added'', JStr (strftime_now E)),
                 (''hash'', JStr (md5_hexdigest E (getvalue u)))]
                (documents_registry st)\<rparr>,
       index_of = index @ [\<lparr>doc_text = t, metadata = [(''filename'', file_name u)]\<rparr>],
       shown = save_document_registry E @ [Success ''Index updated successfully!''],
       uncaught = None\<rparr> \<and>
    map fst (documents_registry (session (upload_documents E st index [u]))) =
      map fst (documents_registry st) \<and>
    map_of (documents_registry (session (upload_documents E st index [u]))) (file_name u) =
      Some [(''type'', JStr (file_type u)),
            (''size'', JInt (int (length (getvalue u)))),
            (''date_added'', JStr (strftime_now E)),
            (''hash'', JStr (md5_hexdigest E (getvalue u)))])"
proof -
  let ?info = "[(''type'', JStr (file_type u)),
                 (''size'', JInt (int (length (getvalue u)))),
                 (''date_added'', JStr (strftime_now E)),
                 (''hash'', JStr (md5_hexdigest E (getvalue u)))]"
  let ?out = "\<lparr>session =
         st\<lparr>documents_registry := AList.update (file_name u) ?info (documents_registry st)\<rparr>,
       index_of = index @ [\<lparr>doc_text = t, metadata = [(''filename'', file_name u)]\<rparr>],
       shown = save_document_registry E @ [Success ''Index updated successfully!''],
       uncaught = None\<rparr>"
  have main: "upload_documents E st index [u] = ?out"
    if nodup: "\<forall>(f, doc_info) \<in> set (documents_registry st).
        map_of doc_info ''hash'' \<noteq> Some (JStr (md5_hexdigest E (getvalue u)))"
      and ty: "file_type u = ''text/plain'' \<and> decode_utf8 E (getvalue u) = Inr t \<or>
     file_type u = ''application/pdf'' \<and> pdf_reader_text E (getvalue u) = Inr t"
      and t: "t \<noteq> []" and emb: "embed_error E t = None" and per: "persist_error E = None"
  proof -
    have nd: "\<not> is_duplicate (documents_registry st) (md5_hexdigest E (getvalue u))"
      unfolding is_duplicate_iff using nodup by blast
    from ty show ?thesis
    proof
      assume "file_type u = ''text/plain'' \<and> decode_utf8 E (getvalue u) = Inr t"
      then show ?thesis
        using nd t emb per
        by (simp add: upload_documents_def process_file_def index_document_def
            index_insert_def Let_def)
    next
      assume "file_type u = ''application/pdf'' \<and> pdf_reader_text E (getvalue u) = Inr t"
      then show ?thesis
        using nd t emb per
        by (simp add: upload_documents_def process_file_def index_document_def
            index_insert_def extract_pdf_text_def Let_def)
    qed
  qed
  have keys: "map fst (documents_registry (session ?out)) = map fst (documents_registry st)"
    if "file_name u \<in> set (map fst (documents_registry st))"
    using update_present_keys [OF that] by simp
  have look: "map_of (documents_registry (session ?out)) (file_name u) = Some ?info"
    by (simp add: AList.update_conv')
  show ?thesis
  proof (rule conjI [OF is_duplicate_rename], rule impI)
    assume H: "(\<forall>(f, doc_info) \<in> set (documents_registry st).
        map_of doc_info ''hash'' \<noteq> Some (JStr (md5_hexdigest E (getvalue u)))) \<and>
      file_name u \<in> set (map fst (documents_registry st)) \<and>
      (file_type u = ''text/plain'' \<and> decode_utf8 E (getvalue u) = Inr t \<or>
       file_type u = ''application/pdf'' \<and> pdf_reader_text E (getvalue u) = Inr t) \<and>
      t \<noteq> [] \<and> embed_error E t = None \<and> persist_error E = None"
    then have m: "upload_documents E st index [u] = ?out"
      using main by blast
    from H have k: "map fst (documents_registry (session ?out)) = map fst (documents_registry st)"
      using keys by blast
    show "upload_documents E st index [u] = ?out \<and>
      map fst (documents_registry (session (upload_documents E st index [u]))) =
        map fst (documents_registry st) \<and>
      map_of (documents_registry (session (upload_documents E st index [u]))) (file_name u) =
        Some ?info"
      unfolding m using k look by blast
  qed
qed

text \<open>
  C10, witness: \<^verbatim>\<open>a.txt\<close> with the content \<^verbatim>\<open>hello\<close> is registered and indexed; a
  file of the same name with the content \<^verbatim>\<open>world\<close> is uploaded.
\<close>

theorem C10_dedup_by_hash_only_witness:
  "documents_registry hello_session = [(''a.txt'', hello_info)] \<and>
   map_of hello_info ''hash'' \<noteq>
     Some (JStr (md5_hexdigest calm_env (getvalue (txt_file ''a.txt'' ''world'')))) \<and>
   file_name (txt_file ''a.txt'' ''world'') \<in> set (map fst (documents_registry hello_session)) \<and>
   upload_documents calm_env hello_session hello_index [txt_file ''a.txt'' ''world''] =
     \<lparr>session =
        hello_session\<lparr>documents_registry :=
          [(''a.txt'',
            [(''type'', JStr ''text/plain''), (''size'', JInt 5),
             (''date_added'', JStr ''2024-01-01 12:00:00''), (''hash'', JStr ''world'')])]\<rparr>,
      index_of =
        [\<lparr>doc_text = ''hello'', metadata = [(''filename'', ''a.txt'')]\<rparr>,
         \<lparr>doc_text = ''world'', metadata = [(''filename'', ''a.txt'')]\<rparr>],
      shown = [Success ''Index updated successfully!''],
      uncaught = None\<rparr>"
proof -
  let ?u = "txt_file ''a.txt'' ''world''"
  have a: "\<forall>(f, doc_info) \<in> set (documents_registry hello_session).
      map_of doc_info ''hash'' \<noteq> Some (JStr (md5_hexdigest calm_env (getvalue ?u)))"
    by (simp add: hello_session_def hello_info_def calm_env_def txt_file_def)
  have b: "file_name ?u \<in> set (map fst (documents_registry hello_session))"
    by (simp add: hello_session_def txt_file_def)
  have c: "file_type ?u = ''text/plain'' \<and> decode_utf8 calm_env (getvalue ?u) = Inr ''world''"
    by (simp add: calm_env_def txt_file_def)
  have d: "''world'' \<noteq> []" "embed_error calm_env ''world'' = None" "persist_error calm_env = None"
    by (simp_all add: calm_env_def)
  have "upload_documents calm_env hello_session hello_index [?u] =
      \<lparr>session =
         hello_session\<lparr>documents_registry :=
              AList.update (file_name ?u)
                [(''type'', JStr (file_type ?u)),
                 (''size'', JInt (int (length (getvalue ?u)))),
                 (''date_added'', JStr (strftime_now calm_env)),
                 (''hash'', JStr (md5_hexdigest calm_env (getvalue ?u)))]
                (documents_registry hello_session)\<rparr>,
       index_of = hello_index @ [\<lparr>doc_text = ''world'', metadata = [(''filename'', file_name ?u)]\<rparr>],
       shown = save_document_registry calm_env @ [Success ''Index updated successfully!''],
       uncaught = None\<rparr>"
    using C10_dedup_by_hash_only [of id "[]" "[]" hello_session calm_env ?u "''world''" hello_index]
      a b c d by blast
  then have "upload_documents calm_env hello_session hello_index [?u] =
     \<lparr>session =
        hello_session\<lparr>documents_registry :=
          [(''a.txt'',
            [(''type'', JStr ''text/plain''), (''size'', JInt 5),
             (''date_added'', JStr ''2024-01-01 12:00:00''), (''hash'', JStr ''world'')])]\<rparr>,
      index_of =
        [\<lparr>doc_text = ''hello'', metadata = [(''filename'', ''a.txt'')]\<rparr>,
         \<lparr>doc_text = ''world'', metadata = [(''filename'', ''a.txt'')]\<rparr>],
      shown = [Success ''Index updated successfully!''],
      uncaught = None\<rparr>"
    by (simp add: hello_session_def hello_index_def hello_info_def calm_env_def txt_file_def
        save_document_registry_def)
  moreover have "documents_registry hello_session = [(''a.txt'', hello_info)]"
    by (simp add: hello_session_def)
  moreover have "map_of hello_info ''hash'' \<noteq>
     Some (JStr (md5_hexdigest calm_env (getvalue (txt_file ''a.txt'' ''world''))))"
    by (simp add: hello_info_def calm_env_def txt_file_def)
  ultimately show ?thesis using b by blast
qed







end
